theory Spec2Isabelle
  imports
    Main
    "HOL-Library.Finite_Map"
    "HOL-Library.Char_ord"
    "HOL-Library.List_Lexorder"
begin

section \<open>Values, dictionaries and exceptions\<close>

text \<open>
  The profile accessor of \<^verbatim>\<open>aiida/common/profile.py\<close> and the NWChem translator of
  \<^verbatim>\<open>aiida/tools/dbexporters/tcod_plugins/nwcpymatgen.py\<close> work on dictionaries that were
  loaded from JSON. A dictionary with string keys is a finite map; the values it holds are
  the JSON values the two modules can meet.
\<close>

datatype pyval =
    PNone
  | PBool bool
  | PInt int
  | PStr string
  | PList "pyval list"
  | PDict "(string, pyval) fmap"

text \<open>
  Exceptions are values. The three configuration errors come from
  \<^verbatim>\<open>aiida.common.exceptions\<close>; the others are Python's own. \<open>KeyError\<close> carries the
  key that was missing, the configuration errors carry their message. \<open>OtherError\<close> stands
  for any further exception an external collaborator raises, and \<open>NotModelled\<close> marks a
  use of the Python runtime outside the fragment embedded below (no theorem speaks about it).
\<close>

datatype error =
    MissingConfigurationError string
  | ProfileConfigurationError string
  | ConfigurationError string
  | KeyError string
  | IndexError
  | ValueError
  | TypeError
  | AttributeError
  | OtherError string
  | NotModelled

text \<open>Sequencing of two computations that may raise: the first exception wins.\<close>

definition bindE :: "error + 'a \<Rightarrow> ('a \<Rightarrow> error + 'b) \<Rightarrow> error + 'b" where
  "bindE m f = (case m of Inl e \<Rightarrow> Inl e | Inr x \<Rightarrow> f x)"

text \<open>\<^verbatim>\<open>d[k]\<close> on a dictionary: the value, or \<open>KeyError\<close>.\<close>

definition dict_getitem :: "(string, pyval) fmap \<Rightarrow> string \<Rightarrow> error + pyval" where
  "dict_getitem d k = (case fmlookup d k of None \<Rightarrow> Inl (KeyError k) | Some v \<Rightarrow> Inr v)"

text \<open>
  \<^verbatim>\<open>v[k]\<close> with a string key on any value: only a dictionary can be subscripted with a
  string; strings and lists want integer indices and the other values are not
  subscriptable, all of which is a \<open>TypeError\<close>.
\<close>

definition py_getitem :: "pyval \<Rightarrow> string \<Rightarrow> error + pyval" where
  "py_getitem v k = (case v of PDict d \<Rightarrow> dict_getitem d k | _ \<Rightarrow> Inl TypeError)"

text \<open>\<^verbatim>\<open>s.startswith(prefix)\<close> and \<^verbatim>\<open>s.endswith(suffix)\<close>.\<close>

definition startswith :: "string \<Rightarrow> string \<Rightarrow> bool" where
  "startswith s pre = (take (length pre) s = pre)"

definition endswith :: "string \<Rightarrow> string \<Rightarrow> bool" where
  "endswith s suf = (length suf \<le> length s \<and> drop (length s - length suf) s = suf)"


subsection \<open>The fragment of the Python library the modules use\<close>

text \<open>
  \<^verbatim>\<open>os.path.join(a, *p)\<close> of \<^verbatim>\<open>posixpath\<close>: a component that starts with a
  slash replaces what was joined so far; otherwise it is appended, after a slash unless
  the path so far is empty or already ends with one.
\<close>

fun path_join :: "string \<Rightarrow> string list \<Rightarrow> string" where
  "path_join path [] = path"
| "path_join path (b # bs) =
     path_join
       (if startswith b ''/'' then b
        else if path = [] \<or> endswith path ''/'' then path @ b
        else path @ ''/'' @ b) bs"

text \<open>
  \<^verbatim>\<open>str(v)\<close>, as \<^verbatim>\<open>str.format\<close> applies it to an argument with an empty format
  specification. A string is taken as it is. The text of numbers and containers is not
  modelled.
\<close>

definition py_str :: "pyval \<Rightarrow> error + string" where
  "py_str v =
     (case v of
        PStr s \<Rightarrow> Inr s
      | PNone \<Rightarrow> Inr ''None''
      | PBool b \<Rightarrow> Inr (if b then ''True'' else ''False'')
      | _ \<Rightarrow> Inl NotModelled)"

text \<open>
  \<^verbatim>\<open>template.format(*args, **kwargs)\<close>, with the arguments already turned into text.
  The modelled fragment is: literal text, the doubled braces \<^verbatim>\<open>{{\<close> and \<^verbatim>\<open>}}\<close>,
  the automatically numbered field \<^verbatim>\<open>{}\<close> and the keyword field \<^verbatim>\<open>{name}\<close>. A lone
  closing brace, an opening brace inside a field name and a field that is not closed are a
  \<open>ValueError\<close>; a missing positional argument is an \<open>IndexError\<close>, a missing keyword a
  \<open>KeyError\<close>. Explicitly numbered fields, attribute and index access, conversions and
  format specifications are outside the fragment.
\<close>

definition format_field ::
  "string list \<Rightarrow> (string \<times> string) list \<Rightarrow> nat \<Rightarrow> string \<Rightarrow> error + string \<times> nat" where
  "format_field args kwargs auto f =
     (if f = [] then
        (if auto < length args then Inr (args ! auto, Suc auto) else Inl IndexError)
      else if hd f \<in> set ''0123456789'' \<or> (\<exists>c \<in> set f. c \<in> set ''.[!:'') then Inl NotModelled
      else (case map_of kwargs f of None \<Rightarrow> Inl (KeyError f) | Some v \<Rightarrow> Inr (v, auto)))"

fun format_text ::
  "string list \<Rightarrow> (string \<times> string) list \<Rightarrow> nat \<Rightarrow> string \<Rightarrow> error + string"
and format_in_field ::
  "string list \<Rightarrow> (string \<times> string) list \<Rightarrow> nat \<Rightarrow> string \<Rightarrow> string \<Rightarrow> error + string"
where
  "format_text args kwargs auto [] = Inr []"
| "format_text args kwargs auto (c # cs) =
     (if c = CHR ''{'' then
        (case cs of
           [] \<Rightarrow> Inl ValueError
         | d # ds \<Rightarrow>
             if d = CHR ''{''
             then bindE (format_text args kwargs auto ds) (\<lambda>r. Inr (CHR ''{'' # r))
             else format_in_field args kwargs auto [] cs)
      else if c = CHR ''}'' then
        (case cs of
           [] \<Rightarrow> Inl ValueError
         | d # ds \<Rightarrow>
             if d = CHR ''}''
             then bindE (format_text args kwargs auto ds) (\<lambda>r. Inr (CHR ''}'' # r))
             else Inl ValueError)
      else bindE (format_text args kwargs auto cs) (\<lambda>r. Inr (c # r)))"
| "format_in_field args kwargs auto f [] = Inl ValueError"
| "format_in_field args kwargs auto f (c # cs) =
     (if c = CHR ''}'' then
        bindE (format_field args kwargs auto f)
          (\<lambda>(v, auto'). bindE (format_text args kwargs auto' cs) (\<lambda>r. Inr (v @ r)))
      else if c = CHR ''{'' then
        Inl (if CHR '':'' \<in> set f \<or> CHR ''!'' \<in> set f then NotModelled else ValueError)
      else format_in_field args kwargs auto (f @ [c]) cs)"

definition py_format :: "string \<Rightarrow> string list \<Rightarrow> (string \<times> string) list \<Rightarrow> error + string" where
  "py_format template args kwargs = format_text args kwargs 0 template"


section \<open>The profile module\<close>

subsection \<open>What the module imports\<close>

text \<open>
  \<^verbatim>\<open>aiida.backends.settings\<close> holds the process-wide override
  \<^verbatim>\<open>AIIDADB_PROFILE\<close>: \<^verbatim>\<open>None\<close> or a string.
\<close>

record settings_module =
  AIIDADB_PROFILE :: "string option"

text \<open>
  The configuration module of \<^verbatim>\<open>aiida.common\<close> is not among the sources. What
  \<^verbatim>\<open>profile.py\<close> takes from it are parameters of the model: three constants, and the
  outcome of its two functions (a call either raises or returns). The loaded
  configuration is a dictionary.
\<close>

record setup_module =
  AIIDA_CONFIG_FOLDER :: string
  PROFILE_UUID_KEY :: string
  DEFAULT_USER_CONFIG_FIELD :: string
  get_default_profile_name :: "error + string"
  get_config :: "error + (string, pyval) fmap"

subsection \<open>Module constants\<close>

definition CONFIG_DIR :: "setup_module \<Rightarrow> string" where
  "CONFIG_DIR stp = AIIDA_CONFIG_FOLDER stp"

definition DAEMON_DIR :: string where
  "DAEMON_DIR = ''daemon''"

definition DAEMON_LOG_DIR :: string where
  "DAEMON_LOG_DIR = ''daemon/log''"

definition CIRCUS_PID_FILE_TEMPLATE :: "setup_module \<Rightarrow> string" where
  "CIRCUS_PID_FILE_TEMPLATE stp = path_join (CONFIG_DIR stp) [DAEMON_DIR, ''circus-{}.pid'']"

definition DAEMON_PID_FILE_TEMPLATE :: "setup_module \<Rightarrow> string" where
  "DAEMON_PID_FILE_TEMPLATE stp = path_join (CONFIG_DIR stp) [DAEMON_DIR, ''aiida-{}.pid'']"

definition CIRCUS_LOG_FILE_TEMPLATE :: "setup_module \<Rightarrow> string" where
  "CIRCUS_LOG_FILE_TEMPLATE stp = path_join (CONFIG_DIR stp) [DAEMON_LOG_DIR, ''circus-{}.log'']"

definition DAEMON_LOG_FILE_TEMPLATE :: "setup_module \<Rightarrow> string" where
  "DAEMON_LOG_FILE_TEMPLATE stp = path_join (CONFIG_DIR stp) [DAEMON_LOG_DIR, ''aiida-{}.log'']"

definition CIRCUS_PORT_FILE_TEMPLATE :: "setup_module \<Rightarrow> string" where
  "CIRCUS_PORT_FILE_TEMPLATE stp = path_join (CONFIG_DIR stp) [DAEMON_DIR, ''circus-{}.port'']"

definition CIRCUS_SOCKET_FILE_TEMPATE :: "setup_module \<Rightarrow> string" where
  "CIRCUS_SOCKET_FILE_TEMPATE stp = path_join (CONFIG_DIR stp) [DAEMON_DIR, ''circus-{}.sockets'']"

definition CIRCUS_CONTROLLER_SOCKET_TEMPLATE :: string where
  "CIRCUS_CONTROLLER_SOCKET_TEMPLATE = ''circus.c.sock''"

definition CIRCUS_PUBSUB_SOCKET_TEMPLATE :: string where
  "CIRCUS_PUBSUB_SOCKET_TEMPLATE = ''circus.p.sock''"

definition CIRCUS_STATS_SOCKET_TEMPLATE :: string where
  "CIRCUS_STATS_SOCKET_TEMPLATE = ''circus.s.sock''"

subsection \<open>Resolving a profile\<close>

text \<open>
  \<^verbatim>\<open>settings.AIIDADB_PROFILE or setup.get_default_profile_name()\<close>: Python's
  \<^verbatim>\<open>or\<close> returns its left operand when that is true, and evaluates the right one
  only otherwise. \<^verbatim>\<open>None\<close> and the empty string are false.
\<close>

definition get_current_profile_name :: "settings_module \<Rightarrow> setup_module \<Rightarrow> error + string" where
  "get_current_profile_name settings stp =
     (case AIIDADB_PROFILE settings of
        None \<Rightarrow> get_default_profile_name stp
      | Some s \<Rightarrow> if s \<noteq> [] then Inr s else get_default_profile_name stp)"

text \<open>
  \<^verbatim>\<open>get_profile_config(name=None)\<close>. The name is resolved before the first
  \<^verbatim>\<open>try\<close>; the first handler catches \<open>MissingConfigurationError\<close> only, the second
  \<open>KeyError\<close> only, whether it comes from \<^verbatim>\<open>config['profiles']\<close> or from the
  lookup of the name.
\<close>

definition get_profile_config ::
  "settings_module \<Rightarrow> setup_module \<Rightarrow> string option \<Rightarrow> error + pyval" where
  \<open>get_profile_config settings stp name_arg =
     bindE (case name_arg of None \<Rightarrow> get_current_profile_name settings stp | Some n \<Rightarrow> Inr n)
       (\<lambda>name.
          case get_config stp of
            Inl (MissingConfigurationError m) \<Rightarrow>
              Inl (MissingConfigurationError ''could not load the configuration file'')
          | Inl e \<Rightarrow> Inl e
          | Inr config \<Rightarrow>
              (case bindE (dict_getitem config ''profiles'') (\<lambda>ps. py_getitem ps name) of
                 Inl (KeyError k) \<Rightarrow>
                   bindE (py_format ''invalid profile name "{}"'' [name] [])
                     (\<lambda>msg. Inl (ProfileConfigurationError msg))
               | Inl e \<Rightarrow> Inl e
               | Inr profile \<Rightarrow> Inr profile))\<close>

subsection \<open>The Profile class\<close>

record Profile =
  p_name :: string
  p_config :: "(string, pyval) fmap"
  p_test_profile :: bool

definition RMQ_PREFIX :: string where
  "RMQ_PREFIX = ''aiida-{uuid}''"

text \<open>
  Modelled from the spec: \<^verbatim>\<open>AttributeDict\<close> of \<^verbatim>\<open>aiida/common/extendeddicts.py\<close>,
  which is not among the sources. The spec calls the profile's \<^verbatim>\<open>config\<close> an
  attribute-accessible mapping of string keys to arbitrary values, owned by the Profile:
  built from a dictionary it is a dictionary with the same entries. What it does with
  another value is not modelled.
\<close>

definition AttributeDict :: "pyval \<Rightarrow> error + (string, pyval) fmap" where
  "AttributeDict v = (case v of PDict d \<Rightarrow> Inr d | _ \<Rightarrow> Inl NotModelled)"

text \<open>\<^verbatim>\<open>Profile.__init__(self, name, config)\<close>.\<close>

definition Profile_init :: "string \<Rightarrow> pyval \<Rightarrow> error + Profile" where
  "Profile_init name config =
     bindE (AttributeDict config)
       (\<lambda>d. Inr \<lparr>p_name = name, p_config = d, p_test_profile = startswith name ''test_''\<rparr>)"

definition config :: "Profile \<Rightarrow> (string, pyval) fmap" where
  "config self = p_config self"

definition name :: "Profile \<Rightarrow> string" where
  "name self = p_name self"

definition uuid :: "setup_module \<Rightarrow> Profile \<Rightarrow> error + pyval" where
  "uuid stp self = dict_getitem (config self) (PROFILE_UUID_KEY stp)"

definition rmq_prefix :: "setup_module \<Rightarrow> Profile \<Rightarrow> error + string" where
  "rmq_prefix stp self =
     bindE (uuid stp self)
       (\<lambda>u. bindE (py_str u) (\<lambda>text. py_format RMQ_PREFIX [] [(''uuid'', text)]))"

definition is_test_profile :: "Profile \<Rightarrow> bool" where
  "is_test_profile self = p_test_profile self"

definition default_user_email :: "setup_module \<Rightarrow> Profile \<Rightarrow> error + pyval" where
  \<open>default_user_email stp self =
     (case dict_getitem (config self) (DEFAULT_USER_CONFIG_FIELD stp) of
        Inl (KeyError k) \<Rightarrow>
          bindE (py_format ''No '{}' key found in the AiiDA configuration file''
                   [DEFAULT_USER_CONFIG_FIELD stp] [])
            (\<lambda>msg. Inl (ConfigurationError msg))
      | Inl e \<Rightarrow> Inl e
      | Inr email \<Rightarrow> Inr email)\<close>

text \<open>
  \<^verbatim>\<open>filepaths\<close>: the entries of a dictionary display are evaluated in the order they
  are written, so the first template that fails to format decides the exception.
\<close>

definition filepaths :: "setup_module \<Rightarrow> Profile \<Rightarrow> error + pyval" where
  "filepaths stp self =
     bindE (py_format (CIRCUS_LOG_FILE_TEMPLATE stp) [name self] []) (\<lambda>circus_log.
     bindE (py_format (CIRCUS_PID_FILE_TEMPLATE stp) [name self] []) (\<lambda>circus_pid.
     bindE (py_format (CIRCUS_PORT_FILE_TEMPLATE stp) [name self] []) (\<lambda>circus_port.
     bindE (py_format (CIRCUS_SOCKET_FILE_TEMPATE stp) [name self] []) (\<lambda>socket_file.
     bindE (py_format (DAEMON_LOG_FILE_TEMPLATE stp) [name self] []) (\<lambda>daemon_log.
     bindE (py_format (DAEMON_PID_FILE_TEMPLATE stp) [name self] []) (\<lambda>daemon_pid.
       Inr (PDict (fmap_of_list
         [(''circus'', PDict (fmap_of_list
             [(''log'', PStr circus_log),
              (''pid'', PStr circus_pid),
              (''port'', PStr circus_port),
              (''socket'', PDict (fmap_of_list
                 [(''file'', PStr socket_file),
                  (''controller'', PStr CIRCUS_CONTROLLER_SOCKET_TEMPLATE),
                  (''pubsub'', PStr CIRCUS_PUBSUB_SOCKET_TEMPLATE),
                  (''stats'', PStr CIRCUS_STATS_SOCKET_TEMPLATE)]))])),
          (''daemon'', PDict (fmap_of_list
             [(''log'', PStr daemon_log),
              (''pid'', PStr daemon_pid)]))]))))))))"

text \<open>\<^verbatim>\<open>get_profile(name=None)\<close>.\<close>

definition get_profile ::
  "settings_module \<Rightarrow> setup_module \<Rightarrow> string option \<Rightarrow> error + Profile" where
  "get_profile settings stp name_arg =
     bindE (case name_arg of None \<Rightarrow> get_current_profile_name settings stp | Some n \<Rightarrow> Inr n)
       (\<lambda>name. bindE (get_profile_config settings stp (Some name))
          (\<lambda>config. Profile_init name config))"

subsection \<open>Reading and assigning the attributes of a Profile\<close>

text \<open>
  The public attributes of the class are its seven properties. Each is declared with
  \<^verbatim>\<open>@property\<close> and a getter only, and no getter assigns to \<^verbatim>\<open>self\<close>. Reading
  an attribute calls its getter. Assigning to a property that has no setter raises
  \<open>AttributeError\<close> and stores nothing. (\<^verbatim>\<open>get_option\<close> is a static method: it
  does not receive the object.) The underscore attributes behind the properties are
  private to the class, which assigns them in \<^verbatim>\<open>__init__\<close> and nowhere else.
\<close>

datatype attribute =
    Attr_config
  | Attr_name
  | Attr_uuid
  | Attr_rmq_prefix
  | Attr_is_test_profile
  | Attr_default_user_email
  | Attr_filepaths

definition Profile_getattr :: "setup_module \<Rightarrow> Profile \<Rightarrow> attribute \<Rightarrow> error + pyval" where
  "Profile_getattr stp self a =
     (case a of
        Attr_config \<Rightarrow> Inr (PDict (config self))
      | Attr_name \<Rightarrow> Inr (PStr (name self))
      | Attr_uuid \<Rightarrow> uuid stp self
      | Attr_rmq_prefix \<Rightarrow> bindE (rmq_prefix stp self) (\<lambda>s. Inr (PStr s))
      | Attr_is_test_profile \<Rightarrow> Inr (PBool (is_test_profile self))
      | Attr_default_user_email \<Rightarrow> default_user_email stp self
      | Attr_filepaths \<Rightarrow> filepaths stp self)"

definition Profile_setattr :: "Profile \<Rightarrow> attribute \<Rightarrow> pyval \<Rightarrow> error + Profile" where
  "Profile_setattr self a v = Inl AttributeError"

text \<open>
  One use of the object by a caller: the outcome of the use, and the object after it. A
  caller may go on after an exception, so a sequence of uses folds over the object.
\<close>

datatype access = Read attribute | Assign attribute pyval

fun perform :: "setup_module \<Rightarrow> Profile \<Rightarrow> access \<Rightarrow> (error + pyval) \<times> Profile" where
  "perform stp self (Read a) = (Profile_getattr stp self a, self)"
| "perform stp self (Assign a v) =
     (case Profile_setattr self a v of
        Inl e \<Rightarrow> (Inl e, self)
      | Inr self' \<Rightarrow> (Inr PNone, self'))"

fun after_accesses :: "setup_module \<Rightarrow> Profile \<Rightarrow> access list \<Rightarrow> Profile" where
  "after_accesses stp self [] = self"
| "after_accesses stp self (x # xs) = after_accesses stp (snd (perform stp self x)) xs"


section \<open>The NWChem translator\<close>

text \<open>
  A calculation, as far as the translator reads it: the dictionary that
  \<^verbatim>\<open>calc.out.output.get_dict()\<close> returns.
\<close>

record calc =
  output_get_dict :: "(string, pyval) fmap"

text \<open>
  \<^verbatim>\<open>sorted(v.keys())\<close>: a value without a \<^verbatim>\<open>keys\<close> method raises
  \<open>AttributeError\<close>. The keys of a dictionary are distinct strings, so sorting them gives
  the same list whatever order \<^verbatim>\<open>keys()\<close> hands them out in; strings compare
  lexicographically, character by character.
\<close>

definition sorted_keys :: "pyval \<Rightarrow> error + string list" where
  "sorted_keys v =
     (case v of PDict d \<Rightarrow> Inr (sorted_list_of_fset (fmdom d)) | _ \<Rightarrow> Inl AttributeError)"

text \<open>A list comprehension whose element expression may raise: the first exception wins.\<close>

fun mapE :: "('a \<Rightarrow> error + 'b) \<Rightarrow> 'a list \<Rightarrow> error + 'b list" where
  "mapE f [] = Inr []"
| "mapE f (x # xs) = bindE (f x) (\<lambda>y. bindE (mapE f xs) (\<lambda>ys. Inr (y # ys)))"

text \<open>The three methods return \<^verbatim>\<open>None\<close> (here \<open>Inr None\<close>) or a list.\<close>

definition get_atom_type_symbol :: "calc \<Rightarrow> error + string list option" where
  "get_atom_type_symbol c =
     (let dictionary = output_get_dict c in
      if ''basis_set'' |\<notin>| fmdom dictionary then Inr None
      else bindE (dict_getitem dictionary ''basis_set'')
             (\<lambda>b. bindE (sorted_keys b) (\<lambda>ks. Inr (Some ks))))"

text \<open>
  \<^verbatim>\<open>[dictionary['basis_set'][x]['description'] for x in cls.get_atom_type_symbol(calc)]\<close>:
  the symbols are computed first, then one element per symbol. Iterating over
  \<^verbatim>\<open>None\<close> is a \<open>TypeError\<close>.
\<close>

definition get_atom_type_basisset :: "calc \<Rightarrow> error + pyval list option" where
  "get_atom_type_basisset c =
     (let dictionary = output_get_dict c in
      if ''basis_set'' |\<notin>| fmdom dictionary then Inr None
      else bindE (get_atom_type_symbol c)
             (\<lambda>symbols. case symbols of
                None \<Rightarrow> Inl TypeError
              | Some xs \<Rightarrow>
                  bindE (mapE (\<lambda>x. bindE (dict_getitem dictionary ''basis_set'')
                                    (\<lambda>b. bindE (py_getitem b x)
                                       (\<lambda>e. py_getitem e ''description''))) xs)
                    (\<lambda>r. Inr (Some r))))"

definition get_atom_type_valence_configuration :: "calc \<Rightarrow> error + pyval list option" where
  "get_atom_type_valence_configuration c =
     (let dictionary = output_get_dict c in
      if ''basis_set'' |\<notin>| fmdom dictionary then Inr None
      else bindE (get_atom_type_symbol c)
             (\<lambda>symbols. case symbols of
                None \<Rightarrow> Inl TypeError
              | Some xs \<Rightarrow>
                  bindE (mapE (\<lambda>x. bindE (dict_getitem dictionary ''basis_set'')
                                    (\<lambda>b. bindE (py_getitem b x)
                                       (\<lambda>e. py_getitem e ''types''))) xs)
                    (\<lambda>r. Inr (Some r))))"

section \<open>Auxiliary notions for the statements\<close>

text \<open>A string without brace characters: literal text for \<^verbatim>\<open>str.format\<close>.\<close>

definition brace_free :: "string \<Rightarrow> bool" where
  "brace_free s = (CHR ''{'' \<notin> set s \<and> CHR ''}'' \<notin> set s)"

text \<open>
  Following the spec's words, ``the template with the name substituted for the
  placeholder'': the first \<^verbatim>\<open>{}\<close> of the template is replaced by the name.
\<close>

fun spec_substitute :: "string \<Rightarrow> string \<Rightarrow> string" where
  "spec_substitute [] n = []"
| "spec_substitute [c] n = [c]"
| "spec_substitute (c # d # cs) n =
     (if c = CHR ''{'' \<and> d = CHR ''}'' then n @ cs else c # spec_substitute (d # cs) n)"

text \<open>The name a call works with: the argument, or the current profile name.\<close>

definition requested_name ::
  "settings_module \<Rightarrow> setup_module \<Rightarrow> string option \<Rightarrow> error + string" where
  "requested_name settings stp name_arg =
     (case name_arg of None \<Rightarrow> get_current_profile_name settings stp | Some n \<Rightarrow> Inr n)"

text \<open>
  In the mapping \<open>bs\<close> the key \<open>x\<close> has a sub-mapping, and \<open>v\<close> is what that
  sub-mapping holds under \<open>field\<close>.
\<close>

definition sub_entry :: "(string, pyval) fmap \<Rightarrow> string \<Rightarrow> string \<Rightarrow> pyval \<Rightarrow> bool" where
  "sub_entry bs field x v = (\<exists>e. fmlookup bs x = Some (PDict e) \<and> fmlookup e field = Some v)"

subsection \<open>Sample inputs\<close>

definition sample_profile_config :: "(string, pyval) fmap" where
  "sample_profile_config =
     fmap_of_list
       [(''PROFILE_UUID'', PStr ''c0ffee00''),
        (''default_user_email'', PStr ''user@example.org'')]"

definition sample_config :: "(string, pyval) fmap" where
  "sample_config =
     fmap_of_list
       [(''default_profile'', PStr ''default''),
        (''profiles'', PDict (fmap_of_list [(''default'', PDict sample_profile_config)]))]"

definition sample_module :: setup_module where
  "sample_module =
     \<lparr>AIIDA_CONFIG_FOLDER = ''/home/user/.aiida'',
      PROFILE_UUID_KEY = ''PROFILE_UUID'',
      DEFAULT_USER_CONFIG_FIELD = ''default_user_email'',
      get_default_profile_name = Inr ''default'',
      get_config = Inr sample_config\<rparr>"

text \<open>No configuration file: both functions of the configuration module raise.\<close>

definition missing_module :: setup_module where
  "missing_module =
     sample_module
       \<lparr>get_default_profile_name := Inl (MissingConfigurationError ''No configuration file found''),
        get_config := Inl (MissingConfigurationError ''No configuration file found'')\<rparr>"

text \<open>A configuration directory whose path contains braces.\<close>

definition braced_module :: setup_module where
  "braced_module = sample_module \<lparr>AIIDA_CONFIG_FOLDER := ''/home/{user}/.aiida''\<rparr>"

definition sample_profile :: Profile where
  "sample_profile =
     \<lparr>p_name = ''test_abc'', p_config = sample_profile_config, p_test_profile = True\<rparr>"

definition bare_profile :: Profile where
  "bare_profile =
     \<lparr>p_name = ''production'', p_config = fmap_of_list [], p_test_profile = False\<rparr>"

definition sample_basis_set :: "(string, pyval) fmap" where
  "sample_basis_set =
     fmap_of_list
       [(''O'', PDict (fmap_of_list
           [(''description'', PStr ''6-31g''), (''types'', PStr ''2s, 1p'')])),
        (''H'', PDict (fmap_of_list
           [(''description'', PStr ''sto-3g''), (''types'', PStr ''1s'')]))]"

definition sample_calc :: calc where
  "sample_calc =
     \<lparr>output_get_dict = fmap_of_list [(''basis_set'', PDict sample_basis_set)]\<rparr>"

definition incomplete_calc :: calc where
  "incomplete_calc =
     \<lparr>output_get_dict = fmap_of_list
        [(''basis_set'', PDict (fmap_of_list [(''H'', PDict (fmap_of_list []))]))]\<rparr>"

definition empty_calc :: calc where
  "empty_calc = \<lparr>output_get_dict = fmap_of_list []\<rparr>"

section \<open>The current profile name\<close>

text \<open>
  Claim C1, as amended. An override that is set to a non-empty string is the current
  profile name, whatever the configuration says (the default is not even asked for). An
  override that is unset, or set to the empty string, leaves the answer to the
  configuration's default profile name, including the exception that lookup may raise.
\<close>

theorem current_profile_name_override:
  "(\<forall>s. AIIDADB_PROFILE settings = Some s \<and> s \<noteq> [] \<longrightarrow>
        get_current_profile_name settings stp = Inr s) \<and>
   (AIIDADB_PROFILE settings = None \<or> AIIDADB_PROFILE settings = Some [] \<longrightarrow>
        get_current_profile_name settings stp = get_default_profile_name stp)"
  by (auto simp: get_current_profile_name_def)

theorem current_profile_name_override_witness:
  "get_current_profile_name \<lparr>AIIDADB_PROFILE = Some ''production''\<rparr> sample_module
     = Inr ''production'' \<and>
   get_current_profile_name \<lparr>AIIDADB_PROFILE = None\<rparr> sample_module = Inr ''default''"
  using current_profile_name_override [of "\<lparr>AIIDADB_PROFILE = Some ''production''\<rparr>" sample_module]
        current_profile_name_override [of "\<lparr>AIIDADB_PROFILE = None\<rparr>" sample_module]
  by (simp add: sample_module_def)

text \<open>
  The claim as it was stated fails for an override that is set to the empty string: the
  default is returned, not the override.
\<close>

theorem empty_override_counterexample:
  "AIIDADB_PROFILE \<lparr>AIIDADB_PROFILE = Some ''''\<rparr> = Some '''' \<and>
   get_current_profile_name \<lparr>AIIDADB_PROFILE = Some ''''\<rparr> sample_module = Inr ''default'' \<and>
   get_current_profile_name \<lparr>AIIDADB_PROFILE = Some ''''\<rparr> sample_module \<noteq> Inr ''''"
  by (simp add: get_current_profile_name_def sample_module_def)

section \<open>Formatting a template with one field\<close>

lemma format_literal:
  "brace_free pre \<Longrightarrow>
   format_text args kwargs auto (pre @ rest) =
     bindE (format_text args kwargs auto rest) (\<lambda>r. Inr (pre @ r))"
  by (induction pre) (auto simp: brace_free_def bindE_def split: sum.splits)

lemma format_auto_field:
  "format_text (a # args) kwargs 0 (''{}'' @ rest) =
     bindE (format_text (a # args) kwargs (Suc 0) rest) (\<lambda>r. Inr (a @ r))"
  by (simp add: format_field_def bindE_def split: sum.splits)

lemma format_one_field:
  assumes "brace_free pre" and "brace_free suf"
  shows "py_format (pre @ ''{}'' @ suf) [n] [] = Inr (pre @ n @ suf)"
proof -
  have suf: "format_text [n] [] (Suc 0) suf = Inr suf"
    using format_literal [OF assms(2), of "[n]" "[]" "Suc 0" "[]"] by (simp add: bindE_def)
  have "format_text [n] [] 0 (''{}'' @ suf) = Inr (n @ suf)"
    unfolding format_auto_field by (simp add: suf bindE_def)
  then show ?thesis
    unfolding py_format_def format_literal [OF assms(1)] by (simp add: bindE_def)
qed

section \<open>Loading a profile's configuration\<close>

text \<open>
  Claim C2. Let the configuration load, and let its \<^verbatim>\<open>profiles\<close> mapping have no entry
  for the requested name \<open>n\<close> (the name given, or the current profile name when none is
  given). Then \<^verbatim>\<open>get_profile_config\<close> and \<^verbatim>\<open>get_profile\<close> raise
  \<open>ProfileConfigurationError\<close>, and the message is \<^verbatim>\<open>invalid profile name "n"\<close>: it
  contains the requested name.
\<close>

theorem unknown_profile_name_rejected:
  assumes "requested_name settings stp name_arg = Inr n"
    and "get_config stp = Inr cfg"
    and "fmlookup cfg ''profiles'' = Some (PDict ps)"
    and "fmlookup ps n = None"
  shows \<open>get_profile_config settings stp name_arg =
           Inl (ProfileConfigurationError (''invalid profile name "'' @ n @ ''"'')) \<and>
         get_profile settings stp name_arg =
           Inl (ProfileConfigurationError (''invalid profile name "'' @ n @ ''"''))\<close>
proof -
  have fmt: \<open>py_format ''invalid profile name "{}"'' [n] [] =
               Inr (''invalid profile name "'' @ n @ ''"'')\<close>
    using format_one_field [of \<open>''invalid profile name "''\<close> \<open>''"''\<close> n]
    by (simp add: brace_free_def)
  have cfg: \<open>get_profile_config settings stp (Some n) =
           Inl (ProfileConfigurationError (''invalid profile name "'' @ n @ ''"''))\<close>
    using assms(2-4) fmt
    by (simp add: get_profile_config_def bindE_def dict_getitem_def py_getitem_def)
  have "get_profile_config settings stp name_arg = get_profile_config settings stp (Some n)"
    using assms(1)
    by (cases name_arg) (simp_all add: requested_name_def get_profile_config_def bindE_def)
  with cfg show ?thesis
    using assms(1)
    by (cases name_arg) (simp_all add: requested_name_def get_profile_def bindE_def)
qed

theorem unknown_profile_name_rejected_witness:
  \<open>get_profile_config \<lparr>AIIDADB_PROFILE = None\<rparr> sample_module (Some ''nonexistent'') =
     Inl (ProfileConfigurationError ''invalid profile name "nonexistent"'') \<and>
   get_profile \<lparr>AIIDADB_PROFILE = None\<rparr> sample_module (Some ''nonexistent'') =
     Inl (ProfileConfigurationError ''invalid profile name "nonexistent"'')\<close>
  using unknown_profile_name_rejected
    [of "\<lparr>AIIDADB_PROFILE = None\<rparr>" sample_module "Some ''nonexistent''" "''nonexistent''"
        sample_config "fmap_of_list [(''default'', PDict sample_profile_config)]"]
  by (simp add: requested_name_def sample_module_def sample_config_def fmlookup_of_list)

text \<open>
  Claim C3, as amended. Once the name is there (given, or resolved without an exception), a
  loader that fails with \<open>MissingConfigurationError\<close>, whatever its message, makes
  \<^verbatim>\<open>get_profile_config\<close> and \<^verbatim>\<open>get_profile\<close> raise \<open>MissingConfigurationError\<close>
  with exactly the message \<^verbatim>\<open>could not load the configuration file\<close>. When no name is
  given and resolving the current profile name raises, that exception leaves both
  functions as it is: the name is resolved before the handler is entered.
\<close>

theorem loader_failure_message:
  "(\<forall>n m. requested_name settings stp name_arg = Inr n \<and>
          get_config stp = Inl (MissingConfigurationError m) \<longrightarrow>
      get_profile_config settings stp name_arg =
        Inl (MissingConfigurationError ''could not load the configuration file'') \<and>
      get_profile settings stp name_arg =
        Inl (MissingConfigurationError ''could not load the configuration file'')) \<and>
   (\<forall>e. requested_name settings stp name_arg = Inl e \<longrightarrow>
      get_profile_config settings stp name_arg = Inl e \<and>
      get_profile settings stp name_arg = Inl e)"
  by (cases name_arg)
     (auto simp: requested_name_def get_profile_config_def get_profile_def bindE_def)

theorem loader_failure_message_witness:
  "get_profile_config \<lparr>AIIDADB_PROFILE = Some ''default''\<rparr> missing_module None =
     Inl (MissingConfigurationError ''could not load the configuration file'') \<and>
   get_profile \<lparr>AIIDADB_PROFILE = None\<rparr> missing_module (Some ''default'') =
     Inl (MissingConfigurationError ''could not load the configuration file'') \<and>
   get_profile_config \<lparr>AIIDADB_PROFILE = None\<rparr> missing_module None =
     Inl (MissingConfigurationError ''No configuration file found'')"
  using loader_failure_message [of "\<lparr>AIIDADB_PROFILE = Some ''default''\<rparr>" missing_module None]
        loader_failure_message [of "\<lparr>AIIDADB_PROFILE = None\<rparr>" missing_module "Some ''default''"]
        loader_failure_message [of "\<lparr>AIIDADB_PROFILE = None\<rparr>" missing_module None]
  by (simp add: requested_name_def get_current_profile_name_def missing_module_def
        sample_module_def)

text \<open>
  The claim as it was stated fails when there is no configuration file, no name is given
  and no override is set: the exception of the default-name lookup comes out with its own
  message.
\<close>

theorem unresolved_name_counterexample:
  "get_config missing_module = Inl (MissingConfigurationError ''No configuration file found'') \<and>
   get_profile_config \<lparr>AIIDADB_PROFILE = None\<rparr> missing_module None =
     Inl (MissingConfigurationError ''No configuration file found'') \<and>
   get_profile_config \<lparr>AIIDADB_PROFILE = None\<rparr> missing_module None \<noteq>
     Inl (MissingConfigurationError ''could not load the configuration file'')"
  by (simp add: get_profile_config_def get_current_profile_name_def bindE_def
        missing_module_def sample_module_def)

section \<open>The Profile accessors\<close>

lemma after_accesses_unchanged: "after_accesses stp p accesses = p"
proof (induction accesses)
  case Nil
  show ?case by simp
next
  case (Cons x xs)
  have "snd (perform stp p x) = p"
    by (cases x) (simp_all add: Profile_setattr_def)
  with Cons show ?case by simp
qed

text \<open>
  Claim C4. For a name \<open>n\<close> whose entry in the loaded configuration's \<^verbatim>\<open>profiles\<close>
  mapping is the mapping \<open>c\<close>, \<^verbatim>\<open>get_profile(n)\<close> returns a Profile whose name is \<open>n\<close>
  (and whose configuration is \<open>c\<close>). The name is immutable from then on: assigning to
  \<^verbatim>\<open>name\<close> raises \<open>AttributeError\<close>, and after any sequence of reads of and
  assignments to the attributes of the Profile its name is still \<open>n\<close>.
\<close>

theorem known_profile_name:
  assumes "get_config stp = Inr cfg"
    and "fmlookup cfg ''profiles'' = Some (PDict ps)"
    and "fmlookup ps n = Some (PDict c)"
  shows "\<exists>p. get_profile settings stp (Some n) = Inr p \<and> name p = n \<and> config p = c \<and>
             (\<forall>v. Profile_setattr p Attr_name v = Inl AttributeError) \<and>
             (\<forall>accesses. name (after_accesses stp p accesses) = n \<and>
                         Profile_getattr stp (after_accesses stp p accesses) Attr_name =
                           Inr (PStr n))"
  using assms
  by (simp add: get_profile_def get_profile_config_def bindE_def dict_getitem_def
        py_getitem_def Profile_init_def AttributeDict_def name_def config_def
        after_accesses_unchanged Profile_setattr_def Profile_getattr_def)

theorem known_profile_name_witness:
  "\<exists>p. get_profile \<lparr>AIIDADB_PROFILE = None\<rparr> sample_module (Some ''default'') = Inr p \<and>
       name p = ''default'' \<and> config p = sample_profile_config \<and>
       Profile_setattr p Attr_name (PStr ''other'') = Inl AttributeError \<and>
       name (after_accesses sample_module p
               [Assign Attr_name (PStr ''other''), Read Attr_uuid, Read Attr_name]) = ''default''"
proof -
  have cfg: "get_config sample_module = Inr sample_config"
    by (simp add: sample_module_def)
  have ps: "fmlookup sample_config ''profiles'' =
      Some (PDict (fmap_of_list [(''default'', PDict sample_profile_config)]))"
    by (simp add: sample_config_def fmlookup_of_list)
  have c: "fmlookup (fmap_of_list [(''default'', PDict sample_profile_config)]) ''default'' =
      Some (PDict sample_profile_config)"
    by (simp add: fmlookup_of_list)
  from known_profile_name [OF cfg ps c, of "\<lparr>AIIDADB_PROFILE = None\<rparr>"] obtain p where
    p: "get_profile \<lparr>AIIDADB_PROFILE = None\<rparr> sample_module (Some ''default'') = Inr p"
    and n: "name p = ''default''"
    and cp: "config p = sample_profile_config"
    and set: "\<forall>v. Profile_setattr p Attr_name v = Inl AttributeError"
    and imm: "\<forall>accesses. name (after_accesses sample_module p accesses) = ''default'' \<and>
        Profile_getattr sample_module (after_accesses sample_module p accesses) Attr_name =
          Inr (PStr ''default'')"
    by (elim exE conjE)
  from set have s: "Profile_setattr p Attr_name (PStr ''other'') = Inl AttributeError" ..
  from imm have "name (after_accesses sample_module p
      [Assign Attr_name (PStr ''other''), Read Attr_uuid, Read Attr_name]) = ''default'' \<and>
      Profile_getattr sample_module (after_accesses sample_module p
        [Assign Attr_name (PStr ''other''), Read Attr_uuid, Read Attr_name]) Attr_name =
          Inr (PStr ''default'')" ..
  then have i: "name (after_accesses sample_module p
      [Assign Attr_name (PStr ''other''), Read Attr_uuid, Read Attr_name]) = ''default''" ..
  show ?thesis
    by (rule exI [of _ p]) (intro conjI p n cp s i)
qed

section \<open>The file paths of a profile\<close>

lemma startswith_char: "startswith (c # cs) [d] = (c = d)"
  by (simp add: startswith_def)

lemma endswith_char: "endswith (xs @ [c]) [d] = (c = d)"
  by (simp add: endswith_def)

lemma join_daemon:
  "c \<noteq> CHR ''/'' \<Longrightarrow>
   path_join cd [DAEMON_DIR, c # cs] =
     (if cd = [] \<or> endswith cd ''/'' then cd else cd @ ''/'') @ ''daemon/'' @ c # cs"
proof -
  assume c: "c \<noteq> CHR ''/''"
  have e: "\<not> endswith (xs @ ''daemon'') ''/''" for xs
    using endswith_char [of "xs @ ''daemo''" "CHR ''n''" "CHR ''/''"] by simp
  show ?thesis
    using c e [of cd] e [of "cd @ ''/''"]
    by (simp add: DAEMON_DIR_def startswith_char)
qed

lemma join_daemon_log:
  "c \<noteq> CHR ''/'' \<Longrightarrow>
   path_join cd [DAEMON_LOG_DIR, c # cs] =
     (if cd = [] \<or> endswith cd ''/'' then cd else cd @ ''/'') @ ''daemon/log/'' @ c # cs"
proof -
  assume c: "c \<noteq> CHR ''/''"
  have e: "\<not> endswith (xs @ ''daemon/log'') ''/''" for xs
    using endswith_char [of "xs @ ''daemon/lo''" "CHR ''g''" "CHR ''/''"] by simp
  show ?thesis
    using c e [of cd] e [of "cd @ ''/''"]
    by (simp add: DAEMON_LOG_DIR_def startswith_char)
qed

lemma spec_substitute_first:
  "brace_free pre \<Longrightarrow> spec_substitute (pre @ ''{}'' @ suf) n = pre @ n @ suf"
proof (induction pre)
  case Nil
  then show ?case by simp
next
  case (Cons c pre)
  then show ?case by (cases pre) (auto simp: brace_free_def)
qed

lemma format_template:
  assumes "brace_free base" and "brace_free mid" and "brace_free suf"
  shows "py_format (base @ mid @ ''{}'' @ suf) [n] [] = Inr (base @ mid @ n @ suf)"
  using format_one_field [of "base @ mid" suf n] assms by (simp add: brace_free_def)

lemma filepaths_value:
  assumes "brace_free (CONFIG_DIR stp)"
  defines "base \<equiv> (if CONFIG_DIR stp = [] \<or> endswith (CONFIG_DIR stp) ''/''
                    then CONFIG_DIR stp else CONFIG_DIR stp @ ''/'')"
  shows "filepaths stp p =
     Inr (PDict (fmap_of_list
       [(''circus'', PDict (fmap_of_list
           [(''log'', PStr (base @ ''daemon/log/circus-'' @ name p @ ''.log'')),
            (''pid'', PStr (base @ ''daemon/circus-'' @ name p @ ''.pid'')),
            (''port'', PStr (base @ ''daemon/circus-'' @ name p @ ''.port'')),
            (''socket'', PDict (fmap_of_list
               [(''file'', PStr (base @ ''daemon/circus-'' @ name p @ ''.sockets'')),
                (''controller'', PStr ''circus.c.sock''),
                (''pubsub'', PStr ''circus.p.sock''),
                (''stats'', PStr ''circus.s.sock'')]))])),
        (''daemon'', PDict (fmap_of_list
           [(''log'', PStr (base @ ''daemon/log/aiida-'' @ name p @ ''.log'')),
            (''pid'', PStr (base @ ''daemon/aiida-'' @ name p @ ''.pid''))]))]))"
proof -
  have b: "brace_free base"
    using assms(1) by (simp add: base_def brace_free_def)
  have t1: "CIRCUS_LOG_FILE_TEMPLATE stp = base @ ''daemon/log/circus-'' @ ''{}'' @ ''.log''"
    unfolding CIRCUS_LOG_FILE_TEMPLATE_def base_def by (subst join_daemon_log) simp_all
  have t2: "CIRCUS_PID_FILE_TEMPLATE stp = base @ ''daemon/circus-'' @ ''{}'' @ ''.pid''"
    unfolding CIRCUS_PID_FILE_TEMPLATE_def base_def by (subst join_daemon) simp_all
  have t3: "CIRCUS_PORT_FILE_TEMPLATE stp = base @ ''daemon/circus-'' @ ''{}'' @ ''.port''"
    unfolding CIRCUS_PORT_FILE_TEMPLATE_def base_def by (subst join_daemon) simp_all
  have t4: "CIRCUS_SOCKET_FILE_TEMPATE stp = base @ ''daemon/circus-'' @ ''{}'' @ ''.sockets''"
    unfolding CIRCUS_SOCKET_FILE_TEMPATE_def base_def by (subst join_daemon) simp_all
  have t5: "DAEMON_LOG_FILE_TEMPLATE stp = base @ ''daemon/log/aiida-'' @ ''{}'' @ ''.log''"
    unfolding DAEMON_LOG_FILE_TEMPLATE_def base_def by (subst join_daemon_log) simp_all
  have t6: "DAEMON_PID_FILE_TEMPLATE stp = base @ ''daemon/aiida-'' @ ''{}'' @ ''.pid''"
    unfolding DAEMON_PID_FILE_TEMPLATE_def base_def by (subst join_daemon) simp_all
  have f1: "py_format (CIRCUS_LOG_FILE_TEMPLATE stp) [name p] [] =
              Inr (base @ ''daemon/log/circus-'' @ name p @ ''.log'')"
    unfolding t1 by (rule format_template [OF b]) (simp_all add: brace_free_def)
  have f2: "py_format (CIRCUS_PID_FILE_TEMPLATE stp) [name p] [] =
              Inr (base @ ''daemon/circus-'' @ name p @ ''.pid'')"
    unfolding t2 by (rule format_template [OF b]) (simp_all add: brace_free_def)
  have f3: "py_format (CIRCUS_PORT_FILE_TEMPLATE stp) [name p] [] =
              Inr (base @ ''daemon/circus-'' @ name p @ ''.port'')"
    unfolding t3 by (rule format_template [OF b]) (simp_all add: brace_free_def)
  have f4: "py_format (CIRCUS_SOCKET_FILE_TEMPATE stp) [name p] [] =
              Inr (base @ ''daemon/circus-'' @ name p @ ''.sockets'')"
    unfolding t4 by (rule format_template [OF b]) (simp_all add: brace_free_def)
  have f5: "py_format (DAEMON_LOG_FILE_TEMPLATE stp) [name p] [] =
              Inr (base @ ''daemon/log/aiida-'' @ name p @ ''.log'')"
    unfolding t5 by (rule format_template [OF b]) (simp_all add: brace_free_def)
  have f6: "py_format (DAEMON_PID_FILE_TEMPLATE stp) [name p] [] =
              Inr (base @ ''daemon/aiida-'' @ name p @ ''.pid'')"
    unfolding t6 by (rule format_template [OF b]) (simp_all add: brace_free_def)
  show ?thesis
    unfolding filepaths_def f1 f2 f3 f4 f5 f6
    by (simp add: bindE_def CIRCUS_CONTROLLER_SOCKET_TEMPLATE_def
          CIRCUS_PUBSUB_SOCKET_TEMPLATE_def CIRCUS_STATS_SOCKET_TEMPLATE_def)
qed

lemma daemon_pid_template:
  assumes "brace_free (CONFIG_DIR stp)"
  defines "base \<equiv> (if CONFIG_DIR stp = [] \<or> endswith (CONFIG_DIR stp) ''/''
                    then CONFIG_DIR stp else CONFIG_DIR stp @ ''/'')"
  shows "spec_substitute (DAEMON_PID_FILE_TEMPLATE stp) n = base @ ''daemon/aiida-'' @ n @ ''.pid''"
    and "path_join (CONFIG_DIR stp) [DAEMON_DIR, ''aiida-'' @ n @ ''.pid''] =
           base @ ''daemon/aiida-'' @ n @ ''.pid''"
proof -
  have b: "brace_free (base @ ''daemon/aiida-'')"
    using assms(1) by (simp add: base_def brace_free_def)
  have t6: "DAEMON_PID_FILE_TEMPLATE stp = (base @ ''daemon/aiida-'') @ ''{}'' @ ''.pid''"
    unfolding DAEMON_PID_FILE_TEMPLATE_def base_def by (subst join_daemon) simp_all
  show "spec_substitute (DAEMON_PID_FILE_TEMPLATE stp) n = base @ ''daemon/aiida-'' @ n @ ''.pid''"
    unfolding t6 spec_substitute_first [OF b] by simp
  show "path_join (CONFIG_DIR stp) [DAEMON_DIR, ''aiida-'' @ n @ ''.pid''] =
           base @ ''daemon/aiida-'' @ n @ ''.pid''"
    using join_daemon [of "CHR ''a''" "CONFIG_DIR stp" "''iida-'' @ n @ ''.pid''"]
    by (simp add: base_def del: path_join.simps)
qed

lemma daemon_pid_entry:
  assumes "brace_free (CONFIG_DIR stp)"
  shows "\<exists>fp. filepaths stp p = Inr fp \<and>
           bindE (py_getitem fp ''daemon'') (\<lambda>d. py_getitem d ''pid'') =
             Inr (PStr (spec_substitute (DAEMON_PID_FILE_TEMPLATE stp) (name p))) \<and>
           spec_substitute (DAEMON_PID_FILE_TEMPLATE stp) (name p) =
             path_join (CONFIG_DIR stp) [DAEMON_DIR, ''aiida-'' @ name p @ ''.pid''] \<and>
           (CONFIG_DIR stp \<noteq> [] \<and> \<not> endswith (CONFIG_DIR stp) ''/'' \<longrightarrow>
              spec_substitute (DAEMON_PID_FILE_TEMPLATE stp) (name p) =
                CONFIG_DIR stp @ ''/daemon/aiida-'' @ name p @ ''.pid'')"
proof -
  note s1 = daemon_pid_template(1) [OF assms, of "name p"]
  note s2 = daemon_pid_template(2) [OF assms, of "name p"]
  have ex: "\<exists>fp. filepaths stp p = Inr fp \<and>
      bindE (py_getitem fp ''daemon'') (\<lambda>d. py_getitem d ''pid'') =
        Inr (PStr (spec_substitute (DAEMON_PID_FILE_TEMPLATE stp) (name p)))"
    unfolding s1 filepaths_value [OF assms]
    by (simp add: bindE_def py_getitem_def dict_getitem_def fmlookup_of_list)
  have eq: "spec_substitute (DAEMON_PID_FILE_TEMPLATE stp) (name p) =
      path_join (CONFIG_DIR stp) [DAEMON_DIR, ''aiida-'' @ name p @ ''.pid'']"
    unfolding s1 s2 ..
  have lit: "CONFIG_DIR stp \<noteq> [] \<and> \<not> endswith (CONFIG_DIR stp) ''/'' \<longrightarrow>
      spec_substitute (DAEMON_PID_FILE_TEMPLATE stp) (name p) =
        CONFIG_DIR stp @ ''/daemon/aiida-'' @ name p @ ''.pid''"
    unfolding s1 by simp
  from ex obtain fp where
    a: "filepaths stp p = Inr fp"
    and b: "bindE (py_getitem fp ''daemon'') (\<lambda>d. py_getitem d ''pid'') =
        Inr (PStr (spec_substitute (DAEMON_PID_FILE_TEMPLATE stp) (name p)))"
    by (elim exE conjE)
  show ?thesis
    by (rule exI [of _ fp]) (intro conjI a b eq lit)
qed

text \<open>
  Claim C5, as amended. For every Profile, \<^verbatim>\<open>filepaths\<close> is a function of the name
  alone: two Profiles with the same name have the same file paths, and after any sequence
  of reads of and assignments to the attributes of the Profile, \<^verbatim>\<open>filepaths\<close> gives
  what it gave before. If the configuration directory is free of braces, so that it is
  literal text inside the path templates, \<^verbatim>\<open>filepaths\<close> returns a dictionary, and its
  entry at \<^verbatim>\<open>['daemon']['pid']\<close> is the daemon-pid template with the profile's name
  substituted for the placeholder. That string is
  \<^verbatim>\<open>os.path.join(CONFIG_DIR, 'daemon', 'aiida-' + name + '.pid')\<close>, which reads
  \<^verbatim>\<open><config_dir>/daemon/aiida-<name>.pid\<close> when the directory is not empty and does
  not end with a slash.
\<close>

theorem daemon_pid_filepath:
  "(\<forall>q. name q = name p \<longrightarrow> filepaths stp q = filepaths stp p) \<and>
   (\<forall>accesses.
      Profile_getattr stp (after_accesses stp p accesses) Attr_filepaths = filepaths stp p) \<and>
   (brace_free (CONFIG_DIR stp) \<longrightarrow>
      (\<exists>fp. filepaths stp p = Inr fp \<and>
         bindE (py_getitem fp ''daemon'') (\<lambda>d. py_getitem d ''pid'') =
           Inr (PStr (spec_substitute (DAEMON_PID_FILE_TEMPLATE stp) (name p))) \<and>
         spec_substitute (DAEMON_PID_FILE_TEMPLATE stp) (name p) =
           path_join (CONFIG_DIR stp) [DAEMON_DIR, ''aiida-'' @ name p @ ''.pid''] \<and>
         (CONFIG_DIR stp \<noteq> [] \<and> \<not> endswith (CONFIG_DIR stp) ''/'' \<longrightarrow>
            spec_substitute (DAEMON_PID_FILE_TEMPLATE stp) (name p) =
              CONFIG_DIR stp @ ''/daemon/aiida-'' @ name p @ ''.pid'')))"
proof (intro conjI impI)
  show "\<forall>q. name q = name p \<longrightarrow> filepaths stp q = filepaths stp p"
    by (simp add: filepaths_def)
  show "\<forall>accesses.
      Profile_getattr stp (after_accesses stp p accesses) Attr_filepaths = filepaths stp p"
    by (simp add: after_accesses_unchanged Profile_getattr_def)
next
  assume "brace_free (CONFIG_DIR stp)"
  then show "\<exists>fp. filepaths stp p = Inr fp \<and>
         bindE (py_getitem fp ''daemon'') (\<lambda>d. py_getitem d ''pid'') =
           Inr (PStr (spec_substitute (DAEMON_PID_FILE_TEMPLATE stp) (name p))) \<and>
         spec_substitute (DAEMON_PID_FILE_TEMPLATE stp) (name p) =
           path_join (CONFIG_DIR stp) [DAEMON_DIR, ''aiida-'' @ name p @ ''.pid''] \<and>
         (CONFIG_DIR stp \<noteq> [] \<and> \<not> endswith (CONFIG_DIR stp) ''/'' \<longrightarrow>
            spec_substitute (DAEMON_PID_FILE_TEMPLATE stp) (name p) =
              CONFIG_DIR stp @ ''/daemon/aiida-'' @ name p @ ''.pid'')"
    by (rule daemon_pid_entry)
qed

theorem daemon_pid_filepath_witness:
  "\<exists>fp. filepaths sample_module sample_profile = Inr fp \<and>
        bindE (py_getitem fp ''daemon'') (\<lambda>d. py_getitem d ''pid'') =
          Inr (PStr ''/home/user/.aiida/daemon/aiida-test_abc.pid'') \<and>
        filepaths sample_module (sample_profile\<lparr>p_config := fmap_of_list []\<rparr>) = Inr fp \<and>
        Profile_getattr sample_module
          (after_accesses sample_module sample_profile
             [Read Attr_filepaths, Assign Attr_filepaths PNone]) Attr_filepaths = Inr fp"
proof -
  have bf: "brace_free (CONFIG_DIR sample_module)"
    by (simp add: CONFIG_DIR_def sample_module_def brace_free_def)
  have ne: "CONFIG_DIR sample_module \<noteq> [] \<and> \<not> endswith (CONFIG_DIR sample_module) ''/''"
    by (simp add: CONFIG_DIR_def sample_module_def endswith_def)
  have same: "name (sample_profile\<lparr>p_config := fmap_of_list []\<rparr>) = name sample_profile"
    by (simp add: name_def)
  note T = daemon_pid_filepath [of sample_profile sample_module]
  note pure = T [THEN conjunct1, THEN spec, THEN mp, OF same]
  note again = T [THEN conjunct2, THEN conjunct1,
      THEN spec [of _ "[Read Attr_filepaths, Assign Attr_filepaths PNone]"]]
  from T [THEN conjunct2, THEN conjunct2, THEN mp, OF bf] obtain fp where
    fp: "filepaths sample_module sample_profile = Inr fp"
    and pid: "bindE (py_getitem fp ''daemon'') (\<lambda>d. py_getitem d ''pid'') =
       Inr (PStr (spec_substitute (DAEMON_PID_FILE_TEMPLATE sample_module) (name sample_profile)))"
    and eq: "spec_substitute (DAEMON_PID_FILE_TEMPLATE sample_module) (name sample_profile) =
       path_join (CONFIG_DIR sample_module) [DAEMON_DIR, ''aiida-'' @ name sample_profile @ ''.pid'']"
    and lit: "CONFIG_DIR sample_module \<noteq> [] \<and> \<not> endswith (CONFIG_DIR sample_module) ''/'' \<longrightarrow>
       spec_substitute (DAEMON_PID_FILE_TEMPLATE sample_module) (name sample_profile) =
         CONFIG_DIR sample_module @ ''/daemon/aiida-'' @ name sample_profile @ ''.pid''"
    by (elim exE conjE)
  from lit [THEN mp, OF ne]
  have "spec_substitute (DAEMON_PID_FILE_TEMPLATE sample_module) (name sample_profile) =
      ''/home/user/.aiida/daemon/aiida-test_abc.pid''"
    by (simp add: CONFIG_DIR_def sample_module_def name_def sample_profile_def)
  with pid have pid': "bindE (py_getitem fp ''daemon'') (\<lambda>d. py_getitem d ''pid'') =
          Inr (PStr ''/home/user/.aiida/daemon/aiida-test_abc.pid'')"
    by simp
  show ?thesis
    using pure again
    unfolding fp
    by (intro exI [of _ fp] conjI refl pid')
qed

text \<open>
  The claim as it was stated fails when the configuration directory has a brace in its
  path: the whole joined path is the format string, so the directory is parsed for fields
  too, and \<^verbatim>\<open>filepaths\<close> raises instead of returning a dictionary.
\<close>

theorem braced_directory_counterexample:
  "CONFIG_DIR braced_module = ''/home/{user}/.aiida'' \<and>
   DAEMON_PID_FILE_TEMPLATE braced_module = ''/home/{user}/.aiida/daemon/aiida-{}.pid'' \<and>
   py_format (DAEMON_PID_FILE_TEMPLATE braced_module) [name sample_profile] [] =
     Inl (KeyError ''user'') \<and>
   filepaths braced_module sample_profile = Inl (KeyError ''user'')"
  by code_simp

section \<open>The test flag, the UUID and the user email\<close>

lemma startswith_iff: "startswith s pre \<longleftrightarrow> (\<exists>rest. s = pre @ rest)"
proof
  assume "startswith s pre"
  then have "s = pre @ drop (length pre) s"
    using append_take_drop_id [of "length pre" s] by (simp add: startswith_def)
  then show "\<exists>rest. s = pre @ rest" ..
next
  assume "\<exists>rest. s = pre @ rest"
  then show "startswith s pre" by (auto simp: startswith_def)
qed

text \<open>
  Claim C6. The constructor stores the name it is given and computes the test flag from
  it, once; \<^verbatim>\<open>is_test_profile\<close> reads what was stored. So for every Profile the
  constructor returns, and after any sequence of reads of and assignments to its
  attributes, \<^verbatim>\<open>is_test_profile\<close> is true exactly when the profile's name starts with
  \<^verbatim>\<open>test_\<close>, and it is the value the constructor computed: assigning to
  \<^verbatim>\<open>is_test_profile\<close> raises \<open>AttributeError\<close>. Built from a mapping, the constructor
  does return a Profile.
\<close>

theorem test_profile_flag:
  "(\<exists>p. Profile_init n (PDict c) = Inr p) \<and>
   (\<forall>v p. Profile_init n v = Inr p \<longrightarrow>
      name p = n \<and>
      (\<forall>b. Profile_setattr p Attr_is_test_profile b = Inl AttributeError) \<and>
      (\<forall>accesses.
         is_test_profile (after_accesses stp p accesses) =
           startswith (name (after_accesses stp p accesses)) ''test_'' \<and>
         (is_test_profile (after_accesses stp p accesses) \<longleftrightarrow>
           (\<exists>rest. name (after_accesses stp p accesses) = ''test_'' @ rest)) \<and>
         is_test_profile (after_accesses stp p accesses) = is_test_profile p \<and>
         Profile_getattr stp (after_accesses stp p accesses) Attr_is_test_profile =
           Inr (PBool (startswith n ''test_''))))"
  by (auto simp: Profile_init_def AttributeDict_def bindE_def is_test_profile_def name_def
        after_accesses_unchanged Profile_setattr_def Profile_getattr_def
        startswith_iff split: pyval.splits)

theorem test_profile_flag_witness:
  "(\<exists>p. Profile_init ''test_abc'' (PDict sample_profile_config) = Inr p \<and>
        name p = ''test_abc'' \<and> is_test_profile p \<and>
        is_test_profile (after_accesses sample_module p
          [Assign Attr_is_test_profile (PBool False), Read Attr_is_test_profile])) \<and>
   (\<exists>p. Profile_init ''production'' (PDict sample_profile_config) = Inr p \<and>
        name p = ''production'' \<and> \<not> is_test_profile p \<and>
        \<not> is_test_profile (after_accesses sample_module p
          [Assign Attr_is_test_profile (PBool True), Read Attr_is_test_profile]))"
proof -
  have t: "startswith ''test_abc'' ''test_''" and f: "\<not> startswith ''production'' ''test_''"
    by (simp_all add: startswith_def)
  note T = test_profile_flag [of "''test_abc''" sample_profile_config sample_module]
  from T [THEN conjunct1] obtain p where
    p: "Profile_init ''test_abc'' (PDict sample_profile_config) = Inr p" ..
  note P = T [THEN conjunct2, THEN spec, THEN spec, THEN mp, OF p]
  note pn = P [THEN conjunct1]
  have p0: "is_test_profile p"
    using P [THEN conjunct2, THEN conjunct2, THEN spec [of _ "[]"], THEN conjunct1] pn t
    by simp
  have p1: "is_test_profile (after_accesses sample_module p
      [Assign Attr_is_test_profile (PBool False), Read Attr_is_test_profile])"
    using P [THEN conjunct2, THEN conjunct2,
        THEN spec [of _ "[Assign Attr_is_test_profile (PBool False), Read Attr_is_test_profile]"],
        THEN conjunct2, THEN conjunct2, THEN conjunct1] p0
    by (rule ssubst)
  note F = test_profile_flag [of "''production''" sample_profile_config sample_module]
  from F [THEN conjunct1] obtain q where
    q: "Profile_init ''production'' (PDict sample_profile_config) = Inr q" ..
  note Q = F [THEN conjunct2, THEN spec, THEN spec, THEN mp, OF q]
  note qn = Q [THEN conjunct1]
  have q0: "\<not> is_test_profile q"
    using Q [THEN conjunct2, THEN conjunct2, THEN spec [of _ "[]"], THEN conjunct1] qn f
    by simp
  have q1: "\<not> is_test_profile (after_accesses sample_module q
      [Assign Attr_is_test_profile (PBool True), Read Attr_is_test_profile])"
    using Q [THEN conjunct2, THEN conjunct2,
        THEN spec [of _ "[Assign Attr_is_test_profile (PBool True), Read Attr_is_test_profile]"],
        THEN conjunct2, THEN conjunct2, THEN conjunct1] q0
    by (rule ssubst)
  show ?thesis
    by (intro conjI exI [of _ p] exI [of _ q] p pn p0 p1 q qn q0 q1)
qed

text \<open>
  Claim C7. When the configuration of a Profile holds the value \<open>v\<close> under the UUID key,
  \<^verbatim>\<open>uuid\<close> is \<open>v\<close> and \<^verbatim>\<open>rmq_prefix\<close> is \<^verbatim>\<open>aiida-\<close> followed by the text of
  \<open>v\<close>; for a string \<open>u\<close> that is \<^verbatim>\<open>'aiida-' + u\<close>.
\<close>

theorem rmq_prefix_format:
  assumes "fmlookup (config p) (PROFILE_UUID_KEY stp) = Some v"
  shows "uuid stp p = Inr v \<and>
         rmq_prefix stp p = bindE (py_str v) (\<lambda>text. Inr (''aiida-'' @ text)) \<and>
         (\<forall>u. v = PStr u \<longrightarrow> rmq_prefix stp p = Inr (''aiida-'' @ u))"
proof -
  have f: "py_format RMQ_PREFIX [] [(''uuid'', t)] = Inr (''aiida-'' @ t)" for t
    by (simp add: RMQ_PREFIX_def py_format_def format_field_def bindE_def)
  have u: "uuid stp p = Inr v"
    using assms by (simp add: uuid_def dict_getitem_def)
  have r: "rmq_prefix stp p = bindE (py_str v) (\<lambda>text. Inr (''aiida-'' @ text))"
    by (simp add: rmq_prefix_def u f bindE_def)
  have "\<forall>u. v = PStr u \<longrightarrow> rmq_prefix stp p = Inr (''aiida-'' @ u)"
    unfolding r by (simp add: py_str_def bindE_def)
  with u r show ?thesis by (intro conjI)
qed

theorem rmq_prefix_format_witness:
  "rmq_prefix sample_module sample_profile = Inr ''aiida-c0ffee00''"
proof -
  have "fmlookup (config sample_profile) (PROFILE_UUID_KEY sample_module) = Some (PStr ''c0ffee00'')"
    by (simp add: config_def sample_profile_def sample_module_def sample_profile_config_def
          fmlookup_of_list)
  from rmq_prefix_format [OF this]
  have "\<forall>u. PStr ''c0ffee00'' = PStr u \<longrightarrow>
          rmq_prefix sample_module sample_profile = Inr (''aiida-'' @ u)"
    by (elim conjE)
  then show ?thesis by simp
qed

text \<open>
  Claim C8. Constructing a Profile from a name and a mapping succeeds whether or not the
  mapping has the default-user-email key. On the Profile so built,
  \<^verbatim>\<open>default_user_email\<close> raises \<open>ConfigurationError\<close> with the message
  \<^verbatim>\<open>No '<key>' key found in the AiiDA configuration file\<close> when the key is absent, and
  returns the stored value when it is present.
\<close>

theorem default_user_email_lazy:
  "\<exists>p. Profile_init n (PDict c) = Inr p \<and> config p = c \<and>
     (fmlookup c (DEFAULT_USER_CONFIG_FIELD stp) = None \<longrightarrow>
        default_user_email stp p =
          Inl (ConfigurationError
                (''No '' @ [CHR 0x27] @ DEFAULT_USER_CONFIG_FIELD stp @ [CHR 0x27] @
                 '' key found in the AiiDA configuration file''))) \<and>
     (\<forall>v. fmlookup c (DEFAULT_USER_CONFIG_FIELD stp) = Some v \<longrightarrow>
        default_user_email stp p = Inr v)"
proof -
  let ?p = "\<lparr>p_name = n, p_config = c, p_test_profile = startswith n ''test_''\<rparr>"
  have fmt: \<open>py_format ''No '{}' key found in the AiiDA configuration file'' [k] [] =
      Inr (''No '' @ [CHR 0x27] @ k @ [CHR 0x27] @ '' key found in the AiiDA configuration file'')\<close>
    for k
    using format_one_field
      [of "''No '' @ [CHR 0x27]" "[CHR 0x27] @ '' key found in the AiiDA configuration file''" k]
    by (simp add: brace_free_def)
  have init: "Profile_init n (PDict c) = Inr ?p"
    by (simp add: Profile_init_def AttributeDict_def bindE_def)
  have cfg: "config ?p = c"
    by (simp add: config_def)
  have absent: "fmlookup c (DEFAULT_USER_CONFIG_FIELD stp) = None \<longrightarrow>
      default_user_email stp ?p =
        Inl (ConfigurationError
              (''No '' @ [CHR 0x27] @ DEFAULT_USER_CONFIG_FIELD stp @ [CHR 0x27] @
               '' key found in the AiiDA configuration file''))"
    by (simp add: default_user_email_def cfg dict_getitem_def fmt bindE_def)
  have present: "\<forall>v. fmlookup c (DEFAULT_USER_CONFIG_FIELD stp) = Some v \<longrightarrow>
      default_user_email stp ?p = Inr v"
    by (simp add: default_user_email_def cfg dict_getitem_def)
  show ?thesis
    by (rule exI [of _ ?p]) (intro conjI init cfg absent present)
qed

theorem default_user_email_lazy_witness:
  \<open>(\<exists>p. Profile_init ''production'' (PDict (fmap_of_list [])) = Inr p \<and>
        default_user_email sample_module p =
          Inl (ConfigurationError
                ''No 'default_user_email' key found in the AiiDA configuration file'')) \<and>
   (\<exists>p. Profile_init ''default'' (PDict sample_profile_config) = Inr p \<and>
        default_user_email sample_module p = Inr (PStr ''user@example.org''))\<close>
proof -
  have none: "fmlookup (fmap_of_list []) (DEFAULT_USER_CONFIG_FIELD sample_module) = None"
    by (simp add: fmlookup_of_list)
  have some: "fmlookup sample_profile_config (DEFAULT_USER_CONFIG_FIELD sample_module) =
      Some (PStr ''user@example.org'')"
    by (simp add: sample_profile_config_def sample_module_def fmlookup_of_list)
  have "\<exists>p. Profile_init ''production'' (PDict (fmap_of_list [])) = Inr p \<and>
        default_user_email sample_module p =
          Inl (ConfigurationError
                (''No '' @ [CHR 0x27] @ DEFAULT_USER_CONFIG_FIELD sample_module @ [CHR 0x27] @
                 '' key found in the AiiDA configuration file''))"
    using default_user_email_lazy [of "''production''" "fmap_of_list []" sample_module] none
    by auto
  then have 1: \<open>\<exists>p. Profile_init ''production'' (PDict (fmap_of_list [])) = Inr p \<and>
        default_user_email sample_module p =
          Inl (ConfigurationError
                ''No 'default_user_email' key found in the AiiDA configuration file'')\<close>
    by (simp add: sample_module_def)
  have 2: "\<exists>p. Profile_init ''default'' (PDict sample_profile_config) = Inr p \<and>
        default_user_email sample_module p = Inr (PStr ''user@example.org'')"
    using default_user_email_lazy [of "''default''" sample_profile_config sample_module] some
    by auto
  from 1 2 show ?thesis by (rule conjI)
qed

text \<open>
  Claim C9. When the configuration of a Profile has no entry under the UUID key,
  \<^verbatim>\<open>uuid\<close> raises the \<open>KeyError\<close> of the lookup itself, for that key: it is no
  \<open>ConfigurationError\<close>, whatever the message. \<^verbatim>\<open>rmq_prefix\<close> passes the same
  \<open>KeyError\<close> on.
\<close>

theorem uuid_missing_key_propagates:
  assumes "fmlookup (config p) (PROFILE_UUID_KEY stp) = None"
  shows "uuid stp p = Inl (KeyError (PROFILE_UUID_KEY stp)) \<and>
         (\<forall>m. uuid stp p \<noteq> Inl (ConfigurationError m)) \<and>
         rmq_prefix stp p = Inl (KeyError (PROFILE_UUID_KEY stp))"
  using assms by (simp add: uuid_def rmq_prefix_def dict_getitem_def bindE_def)

theorem uuid_missing_key_propagates_witness:
  "uuid sample_module bare_profile = Inl (KeyError ''PROFILE_UUID'') \<and>
   rmq_prefix sample_module bare_profile = Inl (KeyError ''PROFILE_UUID'')"
proof -
  have "fmlookup (config bare_profile) (PROFILE_UUID_KEY sample_module) = None"
    by (simp add: config_def bare_profile_def fmlookup_of_list)
  from uuid_missing_key_propagates [OF this] show ?thesis
    by (simp add: sample_module_def)
qed

section \<open>The atom types of an NWChem calculation\<close>

lemma bindE_Inr: "bindE (Inr x) f = f x"
  by (simp add: bindE_def)

lemma mapE_total:
  "\<forall>x \<in> set xs. \<exists>y. f x = Inr y \<Longrightarrow>
   \<exists>ys. mapE f xs = Inr ys \<and> list_all2 (\<lambda>x y. f x = Inr y) xs ys"
proof (induction xs)
  case Nil
  then show ?case by simp
next
  case (Cons x xs)
  then obtain y where y: "f x = Inr y" by auto
  from Cons obtain ys where ys: "mapE f xs = Inr ys" "list_all2 (\<lambda>x y. f x = Inr y) xs ys"
    by auto
  with y show ?case by (intro exI [of _ "y # ys"]) (simp add: bindE_def)
qed

lemma symbols_of_basis_set:
  assumes "fmlookup (output_get_dict c) ''basis_set'' = Some (PDict bs)"
  shows "get_atom_type_symbol c = Inr (Some (sorted_list_of_fset (fmdom bs)))"
proof -
  have "''basis_set'' |\<in>| fmdom (output_get_dict c)"
    using assms by (simp add: fmlookup_dom_iff)
  with assms show ?thesis
    by (simp add: get_atom_type_symbol_def dict_getitem_def sorted_keys_def bindE_def)
qed

lemma entries_of_basis_set:
  assumes bs: "fmlookup (output_get_dict c) ''basis_set'' = Some (PDict bs)"
    and all: "\<forall>x. x |\<in>| fmdom bs \<longrightarrow> (\<exists>v. sub_entry bs field x v)"
  shows "\<exists>vs. bindE (get_atom_type_symbol c)
               (\<lambda>symbols. case symbols of
                  None \<Rightarrow> Inl TypeError
                | Some xs \<Rightarrow>
                    bindE (mapE (\<lambda>x. bindE (dict_getitem (output_get_dict c) ''basis_set'')
                                      (\<lambda>b. bindE (py_getitem b x)
                                         (\<lambda>e. py_getitem e field))) xs)
                      (\<lambda>r. Inr (Some r))) = Inr (Some vs) \<and>
              list_all2 (sub_entry bs field) (sorted_list_of_fset (fmdom bs)) vs"
proof -
  let ?f = "\<lambda>x. bindE (dict_getitem (output_get_dict c) ''basis_set'')
                   (\<lambda>b. bindE (py_getitem b x) (\<lambda>e. py_getitem e field))"
  have f: "?f x = Inr v \<longleftrightarrow> sub_entry bs field x v" for x v
    using bs
    by (auto simp: sub_entry_def bindE_def dict_getitem_def py_getitem_def
          split: option.splits pyval.splits)
  have "\<forall>x \<in> set (sorted_list_of_fset (fmdom bs)). \<exists>v. ?f x = Inr v"
    using all by (simp add: f)
  from mapE_total [OF this] obtain vs where
    vs: "mapE ?f (sorted_list_of_fset (fmdom bs)) = Inr vs"
    and al: "list_all2 (\<lambda>x v. ?f x = Inr v) (sorted_list_of_fset (fmdom bs)) vs"
    by (elim exE conjE)
  from al have "list_all2 (sub_entry bs field) (sorted_list_of_fset (fmdom bs)) vs"
    unfolding f .
  moreover have "bindE (get_atom_type_symbol c)
      (\<lambda>symbols. case symbols of
         None \<Rightarrow> Inl TypeError
       | Some xs \<Rightarrow> bindE (mapE ?f xs) (\<lambda>r. Inr (Some r))) = Inr (Some vs)"
    unfolding symbols_of_basis_set [OF bs] by (simp add: bindE_Inr vs)
  ultimately show ?thesis by (intro exI [of _ vs] conjI)
qed

text \<open>
  Claim C10, as amended. When the output dictionary has no \<^verbatim>\<open>basis_set\<close> key, the three
  methods return \<^verbatim>\<open>None\<close>. When it holds a mapping under that key,
  \<^verbatim>\<open>get_atom_type_symbol\<close> returns the sorted, duplicate-free list of the mapping's
  keys. If moreover every key has a sub-mapping with a \<^verbatim>\<open>description\<close> entry,
  \<^verbatim>\<open>get_atom_type_basisset\<close> returns a list as long as the symbol list whose i-th
  element is the \<^verbatim>\<open>description\<close> entry of the i-th symbol's sub-mapping; likewise
  \<^verbatim>\<open>get_atom_type_valence_configuration\<close> with the \<^verbatim>\<open>types\<close> entries.
\<close>

theorem atom_type_lists:
  "(''basis_set'' |\<notin>| fmdom (output_get_dict c) \<longrightarrow>
      get_atom_type_symbol c = Inr None \<and>
      get_atom_type_basisset c = Inr None \<and>
      get_atom_type_valence_configuration c = Inr None) \<and>
   (\<forall>bs. fmlookup (output_get_dict c) ''basis_set'' = Some (PDict bs) \<longrightarrow>
      (\<exists>syms. get_atom_type_symbol c = Inr (Some syms) \<and>
         sorted syms \<and> distinct syms \<and> set syms = fset (fmdom bs) \<and>
         ((\<forall>x. x |\<in>| fmdom bs \<longrightarrow> (\<exists>v. sub_entry bs ''description'' x v)) \<longrightarrow>
            (\<exists>ds. get_atom_type_basisset c = Inr (Some ds) \<and>
                  list_all2 (sub_entry bs ''description'') syms ds)) \<and>
         ((\<forall>x. x |\<in>| fmdom bs \<longrightarrow> (\<exists>v. sub_entry bs ''types'' x v)) \<longrightarrow>
            (\<exists>ts. get_atom_type_valence_configuration c = Inr (Some ts) \<and>
                  list_all2 (sub_entry bs ''types'') syms ts))))"
proof (intro conjI allI impI)
  assume "''basis_set'' |\<notin>| fmdom (output_get_dict c)"
  then show "get_atom_type_symbol c = Inr None"
    and "get_atom_type_basisset c = Inr None"
    and "get_atom_type_valence_configuration c = Inr None"
    by (simp_all add: get_atom_type_symbol_def get_atom_type_basisset_def
          get_atom_type_valence_configuration_def)
next
  fix bs
  assume bs: "fmlookup (output_get_dict c) ''basis_set'' = Some (PDict bs)"
  let ?syms = "sorted_list_of_fset (fmdom bs)"
  have dom: "''basis_set'' |\<in>| fmdom (output_get_dict c)"
    using bs by (simp add: fmlookup_dom_iff)
  have 1: "get_atom_type_symbol c = Inr (Some ?syms)"
    by (rule symbols_of_basis_set [OF bs])
  have 2: "sorted ?syms" "distinct ?syms" "set ?syms = fset (fmdom bs)"
    by (simp_all add: sorted_list_of_fset.rep_eq)
  have 3: "\<exists>ds. get_atom_type_basisset c = Inr (Some ds) \<and>
                list_all2 (sub_entry bs ''description'') ?syms ds"
    if "\<forall>x. x |\<in>| fmdom bs \<longrightarrow> (\<exists>v. sub_entry bs ''description'' x v)"
    using entries_of_basis_set [OF bs that] dom
    by (simp add: get_atom_type_basisset_def)
  have 4: "\<exists>ts. get_atom_type_valence_configuration c = Inr (Some ts) \<and>
                list_all2 (sub_entry bs ''types'') ?syms ts"
    if "\<forall>x. x |\<in>| fmdom bs \<longrightarrow> (\<exists>v. sub_entry bs ''types'' x v)"
    using entries_of_basis_set [OF bs that] dom
    by (simp add: get_atom_type_valence_configuration_def)
  show "\<exists>syms. get_atom_type_symbol c = Inr (Some syms) \<and>
         sorted syms \<and> distinct syms \<and> set syms = fset (fmdom bs) \<and>
         ((\<forall>x. x |\<in>| fmdom bs \<longrightarrow> (\<exists>v. sub_entry bs ''description'' x v)) \<longrightarrow>
            (\<exists>ds. get_atom_type_basisset c = Inr (Some ds) \<and>
                  list_all2 (sub_entry bs ''description'') syms ds)) \<and>
         ((\<forall>x. x |\<in>| fmdom bs \<longrightarrow> (\<exists>v. sub_entry bs ''types'' x v)) \<longrightarrow>
            (\<exists>ts. get_atom_type_valence_configuration c = Inr (Some ts) \<and>
                  list_all2 (sub_entry bs ''types'') syms ts))"
    using 1 2 3 4 by (intro exI [of _ ?syms] conjI impI)
qed

theorem atom_type_lists_witness:
  "get_atom_type_symbol empty_calc = Inr None \<and>
   get_atom_type_basisset empty_calc = Inr None \<and>
   get_atom_type_valence_configuration empty_calc = Inr None \<and>
   get_atom_type_symbol sample_calc = Inr (Some [''H'', ''O'']) \<and>
   get_atom_type_basisset sample_calc = Inr (Some [PStr ''sto-3g'', PStr ''6-31g'']) \<and>
   get_atom_type_valence_configuration sample_calc = Inr (Some [PStr ''1s'', PStr ''2s, 1p''])"
proof -
  have none: "''basis_set'' |\<notin>| fmdom (output_get_dict empty_calc)"
    by (simp add: empty_calc_def)
  have absent: "get_atom_type_symbol empty_calc = Inr None \<and>
      get_atom_type_basisset empty_calc = Inr None \<and>
      get_atom_type_valence_configuration empty_calc = Inr None"
    using atom_type_lists [of empty_calc] none by simp
  have bs: "fmlookup (output_get_dict sample_calc) ''basis_set'' = Some (PDict sample_basis_set)"
    by (simp add: sample_calc_def sample_basis_set_def fmlookup_of_list)
  have dom: "fset (fmdom sample_basis_set) = {''H'', ''O''}"
    by (auto simp: sample_basis_set_def fset_of_list.rep_eq)
  have entry: "sub_entry sample_basis_set field x v \<longleftrightarrow>
      (x = ''O'' \<and> fmlookup (fmap_of_list
           [(''description'', PStr ''6-31g''), (''types'', PStr ''2s, 1p'')]) field = Some v) \<or>
      (x = ''H'' \<and> fmlookup (fmap_of_list
           [(''description'', PStr ''sto-3g''), (''types'', PStr ''1s'')]) field = Some v)"
    for field x v
    by (auto simp: sub_entry_def sample_basis_set_def fmlookup_of_list)
  have d: "\<forall>x. x |\<in>| fmdom sample_basis_set \<longrightarrow> (\<exists>v. sub_entry sample_basis_set ''description'' x v)"
    using dom by (auto simp: entry fmlookup_of_list)
  have t: "\<forall>x. x |\<in>| fmdom sample_basis_set \<longrightarrow> (\<exists>v. sub_entry sample_basis_set ''types'' x v)"
    using dom by (auto simp: entry fmlookup_of_list)
  from atom_type_lists [of sample_calc, THEN conjunct2, THEN spec, THEN mp, OF bs]
  obtain syms where
    syms: "get_atom_type_symbol sample_calc = Inr (Some syms)"
    and sorted: "sorted syms" "distinct syms" "set syms = fset (fmdom sample_basis_set)"
    and i1: "(\<forall>x. x |\<in>| fmdom sample_basis_set \<longrightarrow>
                 (\<exists>v. sub_entry sample_basis_set ''description'' x v)) \<longrightarrow>
             (\<exists>ds. get_atom_type_basisset sample_calc = Inr (Some ds) \<and>
                   list_all2 (sub_entry sample_basis_set ''description'') syms ds)"
    and i2: "(\<forall>x. x |\<in>| fmdom sample_basis_set \<longrightarrow>
                 (\<exists>v. sub_entry sample_basis_set ''types'' x v)) \<longrightarrow>
             (\<exists>ts. get_atom_type_valence_configuration sample_calc = Inr (Some ts) \<and>
                   list_all2 (sub_entry sample_basis_set ''types'') syms ts)"
    by (elim exE conjE)
  from i1 [THEN mp, OF d] obtain ds where
    ds: "get_atom_type_basisset sample_calc = Inr (Some ds)"
      "list_all2 (sub_entry sample_basis_set ''description'') syms ds"
    by (elim exE conjE)
  from i2 [THEN mp, OF t] obtain ts where
    ts: "get_atom_type_valence_configuration sample_calc = Inr (Some ts)"
      "list_all2 (sub_entry sample_basis_set ''types'') syms ts"
    by (elim exE conjE)
  have "syms = [''H'', ''O'']"
    using sorted dom by (intro sorted_distinct_set_unique) simp_all
  moreover from this ds(2) have "ds = [PStr ''sto-3g'', PStr ''6-31g'']"
    by (auto simp: list_all2_Cons1 entry fmlookup_of_list)
  moreover from \<open>syms = [''H'', ''O'']\<close> ts(2) have "ts = [PStr ''1s'', PStr ''2s, 1p'']"
    by (auto simp: list_all2_Cons1 entry fmlookup_of_list)
  ultimately show ?thesis using absent syms ds(1) ts(1) by simp
qed

text \<open>
  The claim as it was stated fails for a \<^verbatim>\<open>basis_set\<close> mapping with a sub-mapping
  that lacks the entries: the symbol list is returned, the other two methods raise
  \<open>KeyError\<close>.
\<close>

theorem missing_entry_counterexample:
  "fmlookup (output_get_dict incomplete_calc) ''basis_set'' =
     Some (PDict (fmap_of_list [(''H'', PDict (fmap_of_list []))])) \<and>
   get_atom_type_symbol incomplete_calc = Inr (Some [''H'']) \<and>
   get_atom_type_basisset incomplete_calc = Inl (KeyError ''description'') \<and>
   get_atom_type_valence_configuration incomplete_calc = Inl (KeyError ''types'')"
  by code_simp

end
